theory Spec2Isabelle
  imports Main "HOL-Library.Sublist"
begin

section \<open>Python values\<close>

text \<open>
  A Python \<open>str\<close> is a sequence of Unicode code points and \<open>len\<close> counts code points, so a
  string is modelled as a list of code points. The advisory texts of the report start with
  symbols outside ASCII, which are written here by their code points.
\<close>

type_synonym pystr = "nat list"

definition ascii :: "string \<Rightarrow> pystr" where
  "ascii s = map of_char s"

text \<open>
  What \<open>json.load\<close> returns: \<open>None\<close>, a \<open>bool\<close>, an \<open>int\<close>, a \<open>str\<close>, a \<open>list\<close> or a
  \<open>dict\<close>. A dict is an association list in which the first entry of a key is the one that
  counts. Numbers are Python's unbounded integers; payloads holding a number with a fraction
  or an exponent (a Python \<open>float\<close>) are outside this model.
\<close>

datatype json =
    JNull
  | JBool bool
  | JInt int
  | JStr pystr
  | JArr "json list"
  | JObj "(pystr \<times> json) list"

datatype error = AttributeError | TypeError | OtherError

definition ebind :: "error + 'a \<Rightarrow> ('a \<Rightarrow> error + 'b) \<Rightarrow> error + 'b" where
  "ebind m f = (case m of Inl e \<Rightarrow> Inl e | Inr x \<Rightarrow> f x)"

text \<open>The truth value Python gives a value in \<open>if x:\<close>.\<close>

fun truthy :: "json \<Rightarrow> bool" where
  "truthy JNull = False"
| "truthy (JBool b) = b"
| "truthy (JInt n) = (n \<noteq> 0)"
| "truthy (JStr s) = (s \<noteq> [])"
| "truthy (JArr xs) = (xs \<noteq> [])"
| "truthy (JObj kvs) = (kvs \<noteq> [])"

text \<open>\<open>x.get(k, d)\<close>: only a dict has the method; every other value raises AttributeError.\<close>

fun dict_get :: "json \<Rightarrow> pystr \<Rightarrow> json \<Rightarrow> error + json" where
  "dict_get (JObj kvs) k d = Inr (case map_of kvs k of Some v \<Rightarrow> v | None \<Rightarrow> d)"
| "dict_get _ k d = Inl AttributeError"

text \<open>\<open>len(x)\<close>: defined on str, list and dict; \<open>None\<close>, bool and int raise TypeError.\<close>

fun py_len :: "json \<Rightarrow> error + int" where
  "py_len (JStr s) = Inr (int (length s))"
| "py_len (JArr xs) = Inr (int (length xs))"
| "py_len (JObj kvs) = Inr (int (length (remdups (map fst kvs))))"
| "py_len _ = Inl TypeError"

text \<open>\<open>n + x\<close> for an int \<open>n\<close>: an int or a bool (an int subclass) adds; the rest raise TypeError.\<close>

fun int_add :: "int \<Rightarrow> json \<Rightarrow> error + int" where
  "int_add n (JInt m) = Inr (n + m)"
| "int_add n (JBool b) = Inr (n + (if b then 1 else 0))"
| "int_add n _ = Inl TypeError"

text \<open>\<open>d[k] = v\<close> on a dict kept in insertion order.\<close>

definition dict_set :: "(pystr \<times> json) list \<Rightarrow> pystr \<Rightarrow> json \<Rightarrow> (pystr \<times> json) list" where
  "dict_set d k v =
     (if k \<in> set (map fst d) then map (\<lambda>(k', v'). if k' = k then (k', v) else (k', v')) d
      else d @ [(k, v)])"

section \<open>security-report.py\<close>

subsection \<open>Reading a result file\<close>

text \<open>
  What \<open>open\<close> followed by \<open>json.load\<close> does on a path: the file is not there
  (FileNotFoundError), the parser rejects its text with JSONDecodeError, it parses to a
  value, or some other exception is raised: the file may not be opened (PermissionError),
  its bytes do not decode (UnicodeDecodeError), or the parser fails on its text in another
  way (RecursionError on deep nesting, ValueError on an overlong number). The function
  catches the first two exceptions only.
\<close>

datatype file_content = Missing | Malformed | Parsed json | Unreadable

fun load_json_file :: "file_content \<Rightarrow> error + json" where
  "load_json_file Missing = Inr JNull"
| "load_json_file Malformed = Inr JNull"
| "load_json_file (Parsed v) = Inr v"
| "load_json_file Unreadable = Inl OtherError"

subsection \<open>The report\<close>

record summary_counts =
  total_issues :: int
  critical_issues :: int
  high_issues :: int
  medium_issues :: int
  low_issues :: int
  info_issues :: int

record report =
  timestamp :: pystr
  summary :: summary_counts
  tools :: "(pystr \<times> json) list"
  recommendations :: "pystr list"

record final_report = report +
  security_score :: int
  security_grade :: pystr

definition tool_failed :: json where
  "tool_failed = JObj [(ascii ''status'', JStr (ascii ''failed'')), (ascii ''issues_found'', JInt 0)]"

definition set_tool :: "pystr \<Rightarrow> json \<Rightarrow> report \<Rightarrow> report" where
  "set_tool name entry r = r\<lparr>tools := dict_set (tools r) name entry\<rparr>"

text \<open>Lines 45 to 57: the Checkov block.\<close>

definition process_checkov :: "json \<Rightarrow> report \<Rightarrow> error + report" where
  "process_checkov checkov_results r =
     (if truthy checkov_results then
        ebind (dict_get checkov_results (ascii ''failed'') (JInt 0)) (\<lambda>checkov_issues.
        ebind (dict_get checkov_results (ascii ''passed'') (JInt 0)) (\<lambda>passed.
        ebind (dict_get checkov_results (ascii ''skipped'') (JInt 0)) (\<lambda>skipped.
        let r1 = set_tool (ascii ''checkov'')
                   (JObj [(ascii ''status'', JStr (ascii ''completed'')),
                          (ascii ''issues_found'', checkov_issues),
                          (ascii ''passed'', passed),
                          (ascii ''skipped'', skipped)]) r
        in
        ebind (int_add (total_issues (summary r1)) checkov_issues) (\<lambda>new_total.
        ebind (int_add (medium_issues (summary r1)) checkov_issues) (\<lambda>new_medium.
        Inr (r1\<lparr>summary := (summary r1)\<lparr>total_issues := new_total, medium_issues := new_medium\<rparr>\<rparr>))))))
      else Inr (set_tool (ascii ''checkov'') tool_failed r))"

text \<open>Lines 59 to 71: the Trivy block.\<close>

definition process_trivy :: "json \<Rightarrow> report \<Rightarrow> error + report" where
  "process_trivy trivy_results r =
     (if truthy trivy_results then
        ebind (dict_get trivy_results (ascii ''Results'') (JArr [])) (\<lambda>vulnerabilities.
        ebind (py_len vulnerabilities) (\<lambda>trivy_issues.
        let r1 = set_tool (ascii ''trivy'')
                   (JObj [(ascii ''status'', JStr (ascii ''completed'')),
                          (ascii ''issues_found'', JInt trivy_issues),
                          (ascii ''vulnerabilities'', vulnerabilities)]) r
        in
        Inr (r1\<lparr>summary := (summary r1)\<lparr>total_issues := total_issues (summary r1) + trivy_issues,
                                           high_issues := high_issues (summary r1) + trivy_issues\<rparr>\<rparr>)))
      else Inr (set_tool (ascii ''trivy'') tool_failed r))"

text \<open>Lines 73 to 84: the gosec block.\<close>

definition process_gosec :: "json \<Rightarrow> report \<Rightarrow> error + report" where
  "process_gosec gosec_results r =
     (if truthy gosec_results then
        ebind (dict_get gosec_results (ascii ''Issues'') (JArr [])) (\<lambda>found.
        ebind (py_len found) (\<lambda>gosec_issues.
        ebind (dict_get gosec_results (ascii ''Issues'') (JArr [])) (\<lambda>issues.
        let r1 = set_tool (ascii ''gosec'')
                   (JObj [(ascii ''status'', JStr (ascii ''completed'')),
                          (ascii ''issues_found'', JInt gosec_issues),
                          (ascii ''issues'', issues)]) r
        in
        Inr (r1\<lparr>summary := (summary r1)\<lparr>total_issues := total_issues (summary r1) + gosec_issues,
                                           medium_issues := medium_issues (summary r1) + gosec_issues\<rparr>\<rparr>))))
      else Inr (set_tool (ascii ''gosec'') tool_failed r))"

text \<open>Lines 86 to 97: the Semgrep block.\<close>

definition process_semgrep :: "json \<Rightarrow> report \<Rightarrow> error + report" where
  "process_semgrep semgrep_results r =
     (if truthy semgrep_results then
        ebind (dict_get semgrep_results (ascii ''results'') (JArr [])) (\<lambda>found.
        ebind (py_len found) (\<lambda>semgrep_issues.
        ebind (dict_get semgrep_results (ascii ''results'') (JArr [])) (\<lambda>results.
        let r1 = set_tool (ascii ''semgrep'')
                   (JObj [(ascii ''status'', JStr (ascii ''completed'')),
                          (ascii ''issues_found'', JInt semgrep_issues),
                          (ascii ''results'', results)]) r
        in
        Inr (r1\<lparr>summary := (summary r1)\<lparr>total_issues := total_issues (summary r1) + semgrep_issues,
                                           low_issues := low_issues (summary r1) + semgrep_issues\<rparr>\<rparr>))))
      else Inr (set_tool (ascii ''semgrep'') tool_failed r))"

text \<open>
  Lines 99 to 107: the advisory texts. Their first code points are U+1F6A8, U+26A0 U+FE0F,
  U+1F4CB and U+2139 U+FE0F, each followed by a space.
\<close>

definition critical_advice :: pystr where
  "critical_advice = [0x1F6A8] @ ascii '' Critical issues found - immediate action required''"

definition high_advice :: pystr where
  "high_advice = [0x26A0, 0xFE0F] @ ascii '' High priority issues found - address within 24 hours''"

definition medium_advice :: pystr where
  "medium_advice = [0x1F4CB] @ ascii '' Medium priority issues found - address within 1 week''"

definition low_advice :: pystr where
  "low_advice = [0x2139, 0xFE0F] @ ascii '' Low priority issues found - address when convenient''"

definition append_if :: "bool \<Rightarrow> pystr \<Rightarrow> report \<Rightarrow> report" where
  "append_if c s r = (if c then r\<lparr>recommendations := recommendations r @ [s]\<rparr> else r)"

definition generate_recommendations :: "report \<Rightarrow> report" where
  "generate_recommendations r =
     (let r1 = append_if (critical_issues (summary r) > 0) critical_advice r;
          r2 = append_if (high_issues (summary r1) > 0) high_advice r1;
          r3 = append_if (medium_issues (summary r2) > 0) medium_advice r2
      in append_if (low_issues (summary r3) > 0) low_advice r3)"

text \<open>Lines 109 to 120: the score, from \<open>total_issues\<close>.\<close>

definition calculate_security_score :: "int \<Rightarrow> int" where
  "calculate_security_score n =
     (if n = 0 then 100
      else if n \<le> 2 then 95
      else if n \<le> 5 then 85
      else if n \<le> 10 then 70
      else 50)"

definition get_security_grade :: "int \<Rightarrow> pystr" where
  "get_security_grade score =
     (if score \<ge> 95 then ascii ''A+''
      else if score \<ge> 90 then ascii ''A''
      else if score \<ge> 80 then ascii ''B''
      else if score \<ge> 70 then ascii ''C''
      else if score \<ge> 60 then ascii ''D''
      else ascii ''F'')"

definition initial_report :: "pystr \<Rightarrow> report" where
  "initial_report now =
     \<lparr>timestamp = now,
      summary = \<lparr>total_issues = 0, critical_issues = 0, high_issues = 0,
                 medium_issues = 0, low_issues = 0, info_issues = 0\<rparr>,
      tools = [],
      recommendations = []\<rparr>"

text \<open>
  \<open>generate_security_report\<close>, with the clock reading and the outcome of opening each of the
  four result files as arguments. The value is the report the function returns (the same
  one it writes to \<open>docs/badges/security-results.json\<close>), or the exception that ends the run.
  The printed lines and the writing of the output file are not part of the model.
\<close>

definition generate_security_report ::
  "pystr \<Rightarrow> file_content \<Rightarrow> file_content \<Rightarrow> file_content \<Rightarrow> file_content \<Rightarrow> error + final_report" where
  "generate_security_report now checkov_file trivy_file gosec_file semgrep_file =
     ebind (load_json_file checkov_file) (\<lambda>checkov_results.
     ebind (load_json_file trivy_file) (\<lambda>trivy_results.
     ebind (load_json_file gosec_file) (\<lambda>gosec_results.
     ebind (load_json_file semgrep_file) (\<lambda>semgrep_results.
     ebind (process_checkov checkov_results (initial_report now)) (\<lambda>r1.
     ebind (process_trivy trivy_results r1) (\<lambda>r2.
     ebind (process_gosec gosec_results r2) (\<lambda>r3.
     ebind (process_semgrep semgrep_results r3) (\<lambda>r4.
     let r5 = generate_recommendations r4;
         n = total_issues (summary r5);
         score = calculate_security_score n
     in Inr \<lparr>timestamp = timestamp r5, summary = summary r5, tools = tools r5,
             recommendations = recommendations r5,
             security_score = score, security_grade = get_security_grade score\<rparr>))))))))"

text \<open>The report of the run in which none of the four result files is there.\<close>

definition empty_run_report :: "pystr \<Rightarrow> final_report" where
  "empty_run_report now =
     \<lparr>timestamp = now,
      summary = \<lparr>total_issues = 0, critical_issues = 0, high_issues = 0,
                 medium_issues = 0, low_issues = 0, info_issues = 0\<rparr>,
      tools = [(ascii ''checkov'', tool_failed), (ascii ''trivy'', tool_failed),
               (ascii ''gosec'', tool_failed), (ascii ''semgrep'', tool_failed)],
      recommendations = [],
      security_score = 100, security_grade = ascii ''A+''\<rparr>"

text \<open>Whether a value is a dict, the only kind of value with a \<open>get\<close> method.\<close>

fun is_dict :: "json \<Rightarrow> bool" where
  "is_dict (JObj kvs) = True"
| "is_dict _ = False"

text \<open>
  The files of the end-to-end scenario of the specification, section 8: Checkov reports
  \<open>{"failed": 2, "passed": 48, "skipped": 0}\<close> and gosec reports \<open>{"Issues": []}\<close>.
\<close>

definition scenario_checkov :: file_content where
  "scenario_checkov =
     Parsed (JObj [(ascii ''failed'', JInt 2), (ascii ''passed'', JInt 48), (ascii ''skipped'', JInt 0)])"

definition scenario_gosec :: file_content where
  "scenario_gosec = Parsed (JObj [(ascii ''Issues'', JArr [])])"

text \<open>The report of the scenario, for any clock reading.\<close>

definition scenario_report :: "pystr \<Rightarrow> final_report" where
  "scenario_report now =
     \<lparr>timestamp = now,
      summary = \<lparr>total_issues = 2, critical_issues = 0, high_issues = 0,
                 medium_issues = 2, low_issues = 0, info_issues = 0\<rparr>,
      tools = [(ascii ''checkov'',
                JObj [(ascii ''status'', JStr (ascii ''completed'')),
                      (ascii ''issues_found'', JInt 2),
                      (ascii ''passed'', JInt 48),
                      (ascii ''skipped'', JInt 0)]),
               (ascii ''trivy'', tool_failed),
               (ascii ''gosec'',
                JObj [(ascii ''status'', JStr (ascii ''completed'')),
                      (ascii ''issues_found'', JInt 0),
                      (ascii ''issues'', JArr [])]),
               (ascii ''semgrep'', tool_failed)],
      recommendations = [medium_advice],
      security_score = 95, security_grade = ascii ''A+''\<rparr>"

text \<open>A Checkov file whose \<open>failed\<close> number is below zero: \<open>{"failed": -1}\<close>.\<close>

definition negative_checkov :: file_content where
  "negative_checkov = Parsed (JObj [(ascii ''failed'', JInt (- 1))])"

text \<open>
  A run in which every tool reports: Checkov \<open>{"failed": 3}\<close>, Trivy
  \<open>{"Results": [{}, {}]}\<close>, gosec \<open>{"Issues": [{}]}\<close> and Semgrep \<open>{"results": [{}, {}]}\<close>,
  and the report of that run.
\<close>

definition mixed_checkov :: file_content where
  "mixed_checkov = Parsed (JObj [(ascii ''failed'', JInt 3)])"

definition mixed_trivy :: file_content where
  "mixed_trivy = Parsed (JObj [(ascii ''Results'', JArr [JObj [], JObj []])])"

definition mixed_gosec :: file_content where
  "mixed_gosec = Parsed (JObj [(ascii ''Issues'', JArr [JObj []])])"

definition mixed_semgrep :: file_content where
  "mixed_semgrep = Parsed (JObj [(ascii ''results'', JArr [JObj [], JObj []])])"

definition mixed_report :: "pystr \<Rightarrow> final_report" where
  "mixed_report now =
     \<lparr>timestamp = now,
      summary = \<lparr>total_issues = 8, critical_issues = 0, high_issues = 2,
                 medium_issues = 4, low_issues = 2, info_issues = 0\<rparr>,
      tools = [(ascii ''checkov'',
                JObj [(ascii ''status'', JStr (ascii ''completed'')),
                      (ascii ''issues_found'', JInt 3),
                      (ascii ''passed'', JInt 0),
                      (ascii ''skipped'', JInt 0)]),
               (ascii ''trivy'',
                JObj [(ascii ''status'', JStr (ascii ''completed'')),
                      (ascii ''issues_found'', JInt 2),
                      (ascii ''vulnerabilities'', JArr [JObj [], JObj []])]),
               (ascii ''gosec'',
                JObj [(ascii ''status'', JStr (ascii ''completed'')),
                      (ascii ''issues_found'', JInt 1),
                      (ascii ''issues'', JArr [JObj []])]),
               (ascii ''semgrep'',
                JObj [(ascii ''status'', JStr (ascii ''completed'')),
                      (ascii ''issues_found'', JInt 2),
                      (ascii ''results'', JArr [JObj [], JObj []])])],
      recommendations = [high_advice, medium_advice, low_advice],
      security_score = 70, security_grade = ascii ''C''\<rparr>"

section \<open>security-badge.py\<close>

text \<open>\<open>str(n)\<close> and \<open>f"{n}"\<close> for an int: its decimal digits, after a minus sign when negative.\<close>

fun str_nat :: "nat \<Rightarrow> pystr" where
  "str_nat n = (if n < 10 then [48 + n] else str_nat (n div 10) @ [48 + n mod 10])"

declare str_nat.simps [simp del]

definition str_int :: "int \<Rightarrow> pystr" where
  "str_int i = (if i < 0 then 45 # str_nat (nat (- i)) else str_nat (nat i))"

text \<open>
  \<open>create_security_badge(score, grade, issues_count)\<close>, for an int score and a str grade. The
  value is the tuple the function returns: \<open>(svg, status, color, message)\<close>.
\<close>

definition create_security_badge :: "int \<Rightarrow> pystr \<Rightarrow> int \<Rightarrow> pystr \<times> pystr \<times> pystr \<times> pystr" where
  \<open>create_security_badge score grade issues_count =
     (let (color, status) =
            (if score \<ge> 95 then (ascii ''brightgreen'', ascii ''excellent'')
             else if score \<ge> 90 then (ascii ''green'', ascii ''good'')
             else if score \<ge> 80 then (ascii ''yellow'', ascii ''fair'')
             else if score \<ge> 70 then (ascii ''orange'', ascii ''poor'')
             else (ascii ''red'', ascii ''critical''));
          message = str_int score @ ascii ''/100 ('' @ grade @ ascii '')'';
          text_width = int (length message) * 6 + 20;
          svg =
            ascii ''<svg xmlns="http://www.w3.org/2000/svg" width="'' @ str_int (text_width + 80)
              @ ascii ''" height="20">\<newline>''
            @ ascii ''  <linearGradient id="b" x2="0" y2="100%">\<newline>''
            @ ascii ''    <stop offset="0" stop-color="#bbb" stop-opacity=".1"/>\<newline>''
            @ ascii ''    <stop offset="1" stop-opacity=".1"/>\<newline>''
            @ ascii ''  </linearGradient>\<newline>''
            @ ascii ''  <mask id="a">\<newline>''
            @ ascii ''    <rect width="100%" height="100%" rx="3" fill="#fff"/>\<newline>''
            @ ascii ''  </mask>\<newline>''
            @ ascii ''  <g mask="url(#a)">\<newline>''
            @ ascii ''    <path fill="#555" d="M0 0h60v20H0z"/>\<newline>''
            @ ascii ''    <path fill="'' @ color @ ascii ''" d="M60 0h'' @ str_int text_width
              @ ascii ''v20H60z"/>\<newline>''
            @ ascii ''  </g>\<newline>''
            @ ascii ''  <rect width="100%" height="100%" rx="3" fill="none" stroke="rgba(0,0,0,.1)"/>\<newline>''
            @ ascii ''  <g fill="#fff" text-anchor="middle" font-family="DejaVu Sans,Verdana,Geneva,sans-serif" font-size="11">\<newline>''
            @ ascii ''    <text x="30" y="14" fill="#010101" fill-opacity=".3">security</text>\<newline>''
            @ ascii ''    <text x="30" y="13" fill="#fff">security</text>\<newline>''
            @ ascii ''    <text x="'' @ str_int (60 + text_width div 2)
              @ ascii ''" y="14" fill="#010101" fill-opacity=".3">'' @ message @ ascii ''</text>\<newline>''
            @ ascii ''    <text x="'' @ str_int (60 + text_width div 2)
              @ ascii ''" y="13" fill="#fff">'' @ message @ ascii ''</text>\<newline>''
            @ ascii ''  </g>\<newline>''
            @ ascii ''</svg>''
      in (svg, status, color, message))\<close>

text \<open>\<open>create_issues_badge(issues_count)\<close>, for an int count.\<close>

definition create_issues_badge :: "int \<Rightarrow> pystr \<times> pystr \<times> pystr \<times> pystr" where
  \<open>create_issues_badge issues_count =
     (let (color, status, message) =
            (if issues_count = 0 then (ascii ''brightgreen'', ascii ''clean'', ascii ''0 issues'')
             else if issues_count \<le> 2 then
               (ascii ''yellow'', ascii ''minor'', str_int issues_count @ ascii '' issues'')
             else if issues_count \<le> 5 then
               (ascii ''orange'', ascii ''moderate'', str_int issues_count @ ascii '' issues'')
             else (ascii ''red'', ascii ''major'', str_int issues_count @ ascii '' issues''));
          text_width = int (length message) * 6 + 20;
          svg =
            ascii ''<svg xmlns="http://www.w3.org/2000/svg" width="'' @ str_int (text_width + 80)
              @ ascii ''" height="20">\<newline>''
            @ ascii ''  <linearGradient id="b" x2="0" y2="100%">\<newline>''
            @ ascii ''    <stop offset="0" stop-color="#bbb" stop-opacity=".1"/>\<newline>''
            @ ascii ''    <stop offset="1" stop-opacity=".1"/>\<newline>''
            @ ascii ''  </linearGradient>\<newline>''
            @ ascii ''  <mask id="a">\<newline>''
            @ ascii ''    <rect width="100%" height="100%" rx="3" fill="#fff"/>\<newline>''
            @ ascii ''  </mask>\<newline>''
            @ ascii ''  <g mask="url(#a)">\<newline>''
            @ ascii ''    <path fill="#555" d="M0 0h60v20H0z"/>\<newline>''
            @ ascii ''    <path fill="'' @ color @ ascii ''" d="M60 0h'' @ str_int text_width
              @ ascii ''v20H60z"/>\<newline>''
            @ ascii ''  </g>\<newline>''
            @ ascii ''  <rect width="100%" height="100%" rx="3" fill="none" stroke="rgba(0,0,0,.1)"/>\<newline>''
            @ ascii ''  <g fill="#fff" text-anchor="middle" font-family="DejaVu Sans,Verdana,Geneva,sans-serif" font-size="11">\<newline>''
            @ ascii ''    <text x="30" y="14" fill="#010101" fill-opacity=".3">issues</text>\<newline>''
            @ ascii ''    <text x="30" y="13" fill="#fff">issues</text>\<newline>''
            @ ascii ''    <text x="'' @ str_int (60 + text_width div 2)
              @ ascii ''" y="14" fill="#010101" fill-opacity=".3">'' @ message @ ascii ''</text>\<newline>''
            @ ascii ''    <text x="'' @ str_int (60 + text_width div 2)
              @ ascii ''" y="13" fill="#fff">'' @ message @ ascii ''</text>\<newline>''
            @ ascii ''  </g>\<newline>''
            @ ascii ''</svg>''
      in (svg, status, color, message))\<close>

section \<open>coverage-badge.py\<close>

text \<open>
  \<open>generate_coverage_badge(coverage_percent)\<close>, for \<open>None\<close> or a float. Python's floats are
  not modelled: the comparison of a float with an int (\<open>ge\<close>) and the format \<open>:.1f\<close>
  (\<open>fmt1\<close>) are arguments, and the function is read for any float type \<open>'f\<close>.
\<close>

definition generate_coverage_badge ::
  "('f \<Rightarrow> int \<Rightarrow> bool) \<Rightarrow> ('f \<Rightarrow> pystr) \<Rightarrow> 'f option \<Rightarrow> pystr \<times> pystr \<times> pystr \<times> pystr" where
  \<open>generate_coverage_badge ge fmt1 coverage_percent =
     (let (status, color, message) =
            (case coverage_percent of
               None \<Rightarrow> (ascii ''unknown'', ascii ''lightgrey'', ascii ''No data'')
             | Some c \<Rightarrow>
                 if ge c 90 then (ascii ''excellent'', ascii ''brightgreen'', fmt1 c @ ascii ''%'')
                 else if ge c 80 then (ascii ''good'', ascii ''green'', fmt1 c @ ascii ''%'')
                 else if ge c 70 then (ascii ''fair'', ascii ''yellow'', fmt1 c @ ascii ''%'')
                 else if ge c 60 then (ascii ''poor'', ascii ''orange'', fmt1 c @ ascii ''%'')
                 else (ascii ''critical'', ascii ''red'', fmt1 c @ ascii ''%''));
          text_width = int (length message) * 6 + 20;
          svg =
            ascii ''<svg xmlns="http://www.w3.org/2000/svg" width="'' @ str_int (text_width + 80)
              @ ascii ''" height="20">\<newline>''
            @ ascii ''  <linearGradient id="b" x2="0" y2="100%">\<newline>''
            @ ascii ''    <stop offset="0" stop-color="#bbb" stop-opacity=".1"/>\<newline>''
            @ ascii ''    <stop offset="1" stop-opacity=".1"/>\<newline>''
            @ ascii ''  </linearGradient>\<newline>''
            @ ascii ''  <mask id="a">\<newline>''
            @ ascii ''    <rect width="100%" height="100%" rx="3" fill="#fff"/>\<newline>''
            @ ascii ''  </mask>\<newline>''
            @ ascii ''  <g mask="url(#a)">\<newline>''
            @ ascii ''    <path fill="#555" d="M0 0h60v20H0z"/>\<newline>''
            @ ascii ''    <path fill="'' @ color @ ascii ''" d="M60 0h'' @ str_int text_width
              @ ascii ''v20H60z"/>\<newline>''
            @ ascii ''  </g>\<newline>''
            @ ascii ''  <rect width="100%" height="100%" rx="3" fill="none" stroke="rgba(0,0,0,.1)"/>\<newline>''
            @ ascii ''  <g fill="#fff" text-anchor="middle" font-family="DejaVu Sans,Verdana,Geneva,sans-serif" font-size="11">\<newline>''
            @ ascii ''    <text x="30" y="14" fill="#010101" fill-opacity=".3">coverage</text>\<newline>''
            @ ascii ''    <text x="30" y="13" fill="#fff">coverage</text>\<newline>''
            @ ascii ''    <text x="'' @ str_int (60 + text_width div 2)
              @ ascii ''" y="14" fill="#010101" fill-opacity=".3">'' @ message @ ascii ''</text>\<newline>''
            @ ascii ''    <text x="'' @ str_int (60 + text_width div 2)
              @ ascii ''" y="13" fill="#fff">'' @ message @ ascii ''</text>\<newline>''
            @ ascii ''  </g>\<newline>''
            @ ascii ''</svg>''
      in (svg, status, color, message))\<close>

section \<open>The badge as a function of label, message and color\<close>

text \<open>The components of the tuple \<open>(svg, status, color, message)\<close> a generator returns.\<close>

definition badge_svg :: "pystr \<times> pystr \<times> pystr \<times> pystr \<Rightarrow> pystr" where
  "badge_svg b = fst b"

definition badge_status :: "pystr \<times> pystr \<times> pystr \<times> pystr \<Rightarrow> pystr" where
  "badge_status b = fst (snd b)"

definition badge_color :: "pystr \<times> pystr \<times> pystr \<times> pystr \<Rightarrow> pystr" where
  "badge_color b = fst (snd (snd b))"

definition badge_message :: "pystr \<times> pystr \<times> pystr \<times> pystr \<Rightarrow> pystr" where
  "badge_message b = snd (snd (snd b))"

text \<open>
  The BadgeRenderer of the specification, section 4.4: one function of a label, a message
  and a color, and of nothing else. The left segment is 60 wide and shows the label, the
  right segment is \<open>len(message) * 6 + 20\<close> wide on the color, and the badge is 20 more
  than both. The three generators are compared with it below.
\<close>

definition render_badge :: "pystr \<Rightarrow> pystr \<Rightarrow> pystr \<Rightarrow> pystr" where
  \<open>render_badge label message color =
     (let right_width = int (length message) * 6 + 20;
          middle = str_int (60 + right_width div 2)
      in concat
        [ascii ''<svg xmlns="http://www.w3.org/2000/svg" width="'', str_int (right_width + 80),
           ascii ''" height="20">\<newline>'',
         ascii ''  <linearGradient id="b" x2="0" y2="100%">\<newline>'',
         ascii ''    <stop offset="0" stop-color="#bbb" stop-opacity=".1"/>\<newline>'',
         ascii ''    <stop offset="1" stop-opacity=".1"/>\<newline>'',
         ascii ''  </linearGradient>\<newline>'',
         ascii ''  <mask id="a">\<newline>'',
         ascii ''    <rect width="100%" height="100%" rx="3" fill="#fff"/>\<newline>'',
         ascii ''  </mask>\<newline>'',
         ascii ''  <g mask="url(#a)">\<newline>'',
         ascii ''    <path fill="#555" d="M0 0h60v20H0z"/>\<newline>'',
         ascii ''    <path fill="'', color, ascii ''" d="M60 0h'', str_int right_width,
           ascii ''v20H60z"/>\<newline>'',
         ascii ''  </g>\<newline>'',
         ascii ''  <rect width="100%" height="100%" rx="3" fill="none" stroke="rgba(0,0,0,.1)"/>\<newline>'',
         ascii ''  <g fill="#fff" text-anchor="middle" font-family="DejaVu Sans,Verdana,Geneva,sans-serif" font-size="11">\<newline>'',
         ascii ''    <text x="30" y="14" fill="#010101" fill-opacity=".3">'', label,
           ascii ''</text>\<newline>'',
         ascii ''    <text x="30" y="13" fill="#fff">'', label, ascii ''</text>\<newline>'',
         ascii ''    <text x="'', middle, ascii ''" y="14" fill="#010101" fill-opacity=".3">'',
           message, ascii ''</text>\<newline>'',
         ascii ''    <text x="'', middle, ascii ''" y="13" fill="#fff">'', message,
           ascii ''</text>\<newline>'',
         ascii ''  </g>\<newline>'',
         ascii ''</svg>''])\<close>

section \<open>Properties of the report\<close>

subsection \<open>Auxiliary facts\<close>

lemma ebind_Inr_iff: "ebind m f = Inr y \<longleftrightarrow> (\<exists>x. m = Inr x \<and> f x = Inr y)"
  by (cases m) (simp_all add: ebind_def)

lemma ebind_Inl: "ebind (Inl e) f = Inl e"
  by (simp add: ebind_def)

lemma ebind_Inr: "ebind (Inr x) f = f x"
  by (simp add: ebind_def)

lemma dict_get_not_dict: "\<not> is_dict v \<Longrightarrow> dict_get v k d = Inl AttributeError"
  by (cases v) simp_all

lemma py_len_nonneg: "py_len v = Inr n \<Longrightarrow> 0 \<le> n"
  by (cases v) auto


lemma map_of_replace_other:
  "k' \<noteq> k \<Longrightarrow>
     map_of (map (\<lambda>(k', v'). if k' = k then (k', v) else (k', v')) d) k' = map_of d k'"
  by (induction d) auto

lemma map_of_replace_same:
  "k \<in> fst ` set d \<Longrightarrow>
     map_of (map (\<lambda>(k', v'). if k' = k then (k', v) else (k', v')) d) k = Some v"
  by (induction d) auto

lemma map_of_dict_set:
  "map_of (dict_set d k v) k' = (if k' = k then Some v else map_of d k')"
proof (cases "k \<in> fst ` set d")
  case False
  then have "map_of d k = None"
    by (simp add: map_of_eq_None_iff)
  with False show ?thesis
    by (simp add: dict_set_def map_add_def split: option.splits)
next
  case True
  then show ?thesis
    by (simp add: dict_set_def map_of_replace_other map_of_replace_same)
qed

lemma set_tool_simps:
  "summary (set_tool name e r) = summary r"
  "recommendations (set_tool name e r) = recommendations r"
  "timestamp (set_tool name e r) = timestamp r"
  "map_of (tools (set_tool name e r)) k = (if k = name then Some e else map_of (tools r) k)"
  by (simp_all add: set_tool_def map_of_dict_set)


lemma process_not_dict:
  assumes "truthy v" and "\<not> is_dict v"
  shows "process_checkov v r = Inl AttributeError"
    and "process_trivy v r = Inl AttributeError"
    and "process_gosec v r = Inl AttributeError"
    and "process_semgrep v r = Inl AttributeError"
  using assms
  by (simp_all add: process_checkov_def process_trivy_def process_gosec_def process_semgrep_def
        dict_get_not_dict ebind_Inl)

text \<open>What a block leaves alone: it writes its own tool entry and adds to its own bucket.\<close>

lemma process_checkov_keeps:
  assumes "process_checkov v r = Inr r'"
  shows "recommendations r' = recommendations r"
    and "critical_issues (summary r') = critical_issues (summary r)"
    and "high_issues (summary r') = high_issues (summary r)"
    and "low_issues (summary r') = low_issues (summary r)"
    and "info_issues (summary r') = info_issues (summary r)"
    and "k \<noteq> ascii ''checkov'' \<Longrightarrow> map_of (tools r') k = map_of (tools r) k"
  using assms
  by (auto simp: process_checkov_def ebind_Inr_iff Let_def set_tool_simps split: if_splits)

lemma process_trivy_keeps:
  assumes "process_trivy v r = Inr r'"
  shows "recommendations r' = recommendations r"
    and "critical_issues (summary r') = critical_issues (summary r)"
    and "high_issues (summary r) \<le> high_issues (summary r')"
    and "medium_issues (summary r') = medium_issues (summary r)"
    and "low_issues (summary r') = low_issues (summary r)"
    and "info_issues (summary r') = info_issues (summary r)"
    and "k \<noteq> ascii ''trivy'' \<Longrightarrow> map_of (tools r') k = map_of (tools r) k"
  using assms
  by (auto simp: process_trivy_def ebind_Inr_iff Let_def set_tool_simps
           dest: py_len_nonneg split: if_splits)

lemma process_gosec_keeps:
  assumes "process_gosec v r = Inr r'"
  shows "recommendations r' = recommendations r"
    and "critical_issues (summary r') = critical_issues (summary r)"
    and "high_issues (summary r') = high_issues (summary r)"
    and "low_issues (summary r') = low_issues (summary r)"
    and "info_issues (summary r') = info_issues (summary r)"
    and "k \<noteq> ascii ''gosec'' \<Longrightarrow> map_of (tools r') k = map_of (tools r) k"
  using assms
  by (auto simp: process_gosec_def ebind_Inr_iff Let_def set_tool_simps split: if_splits)

lemma process_semgrep_keeps:
  assumes "process_semgrep v r = Inr r'"
  shows "recommendations r' = recommendations r"
    and "critical_issues (summary r') = critical_issues (summary r)"
    and "high_issues (summary r') = high_issues (summary r)"
    and "medium_issues (summary r') = medium_issues (summary r)"
    and "low_issues (summary r) \<le> low_issues (summary r')"
    and "info_issues (summary r') = info_issues (summary r)"
    and "k \<noteq> ascii ''semgrep'' \<Longrightarrow> map_of (tools r') k = map_of (tools r) k"
  using assms
  by (auto simp: process_semgrep_def ebind_Inr_iff Let_def set_tool_simps
           dest: py_len_nonneg split: if_splits)

lemma initial_report_simps:
  "recommendations (initial_report now) = []"
  "critical_issues (summary (initial_report now)) = 0"
  "high_issues (summary (initial_report now)) = 0"
  "low_issues (summary (initial_report now)) = 0"
  "info_issues (summary (initial_report now)) = 0"
  by (simp_all add: initial_report_def)

lemma summary_append_if: "summary (append_if c s r) = summary r"
  by (simp add: append_if_def)

lemma summary_generate_recommendations:
  "summary (generate_recommendations r) = summary r"
  by (simp add: generate_recommendations_def Let_def summary_append_if)

lemma tools_generate_recommendations: "tools (generate_recommendations r) = tools r"
  by (simp add: generate_recommendations_def Let_def append_if_def)

lemma recommendations_generate_recommendations:
  "recommendations (generate_recommendations r) =
     recommendations r
     @ (if critical_issues (summary r) > 0 then [critical_advice] else [])
     @ (if high_issues (summary r) > 0 then [high_advice] else [])
     @ (if medium_issues (summary r) > 0 then [medium_advice] else [])
     @ (if low_issues (summary r) > 0 then [low_advice] else [])"
  by (simp add: generate_recommendations_def append_if_def Let_def)

text \<open>A run that returns a report went through the four loads and the four blocks.\<close>

lemma generate_security_report_Inr:
  assumes "generate_security_report now c t g s = Inr rep"
  obtains vc vt vg vs r1 r2 r3 r4 where
    "load_json_file c = Inr vc" "load_json_file t = Inr vt"
    "load_json_file g = Inr vg" "load_json_file s = Inr vs"
    "process_checkov vc (initial_report now) = Inr r1"
    "process_trivy vt r1 = Inr r2"
    "process_gosec vg r2 = Inr r3"
    "process_semgrep vs r3 = Inr r4"
    "summary rep = summary r4"
    "tools rep = tools r4"
    "recommendations rep = recommendations (generate_recommendations r4)"
  using assms
  by (auto simp: generate_security_report_def ebind_Inr_iff Let_def
        summary_generate_recommendations tools_generate_recommendations)

lemma generate_security_report_score:
  assumes "generate_security_report now c t g s = Inr rep"
  shows "security_score rep = calculate_security_score (total_issues (summary rep))"
    and "security_grade rep = get_security_grade (security_score rep)"
  using assms
  by (auto simp: generate_security_report_def ebind_def Let_def summary_generate_recommendations
           split: sum.splits)

lemma generate_all_missing:
  "generate_security_report now Missing Missing Missing Missing = Inr (empty_run_report now)"
  by (simp add: generate_security_report_def ebind_def Let_def process_checkov_def
        process_trivy_def process_gosec_def process_semgrep_def set_tool_def dict_set_def
        initial_report_def generate_recommendations_def append_if_def empty_run_report_def
        calculate_security_score_def get_security_grade_def ascii_def)

lemma generate_scenario:
  "generate_security_report now scenario_checkov Missing scenario_gosec Missing =
     Inr (scenario_report now)"
  by (simp add: generate_security_report_def ebind_def Let_def process_checkov_def
        process_trivy_def process_gosec_def process_semgrep_def set_tool_def dict_set_def
        initial_report_def generate_recommendations_def append_if_def scenario_report_def
        scenario_checkov_def scenario_gosec_def
        calculate_security_score_def get_security_grade_def ascii_def)

lemma generate_mixed:
  "generate_security_report now mixed_checkov mixed_trivy mixed_gosec mixed_semgrep =
     Inr (mixed_report now)"
  by (simp add: generate_security_report_def ebind_def Let_def process_checkov_def
        process_trivy_def process_gosec_def process_semgrep_def set_tool_def dict_set_def
        initial_report_def generate_recommendations_def append_if_def mixed_report_def
        mixed_checkov_def mixed_trivy_def mixed_gosec_def mixed_semgrep_def
        calculate_security_score_def get_security_grade_def ascii_def)


subsection \<open>Score and grade\<close>

text \<open>
  C1. The score is a step function of \<open>total_issues\<close> alone: 0 gives 100, 1 to 2 give 95,
  3 to 5 give 85, 6 to 10 give 70 and every total above 10 gives 50; so 2 gives 95, 3 gives
  85 and 11 gives 50. The score of every report the run returns is this function of the
  report's \<open>total_issues\<close>.
\<close>

theorem security_score_bands:
  "(n = 0 \<longrightarrow> calculate_security_score n = 100) \<and>
   (1 \<le> n \<and> n \<le> 2 \<longrightarrow> calculate_security_score n = 95) \<and>
   (3 \<le> n \<and> n \<le> 5 \<longrightarrow> calculate_security_score n = 85) \<and>
   (6 \<le> n \<and> n \<le> 10 \<longrightarrow> calculate_security_score n = 70) \<and>
   (10 < n \<longrightarrow> calculate_security_score n = 50) \<and>
   calculate_security_score 2 = 95 \<and>
   calculate_security_score 3 = 85 \<and>
   calculate_security_score 11 = 50 \<and>
   (generate_security_report now c t g s = Inr rep \<longrightarrow>
      security_score rep = calculate_security_score (total_issues (summary rep)))"
  using generate_security_report_score(1) [of now c t g s rep]
  by (simp add: calculate_security_score_def)

theorem security_score_bands_witness:
  "calculate_security_score 0 = 100 \<and>
   ((1::int) \<le> 1 \<and> (1::int) \<le> 2 \<and> calculate_security_score 1 = 95) \<and>
   ((3::int) \<le> 4 \<and> (4::int) \<le> 5 \<and> calculate_security_score 4 = 85) \<and>
   ((6::int) \<le> 8 \<and> (8::int) \<le> 10 \<and> calculate_security_score 8 = 70) \<and>
   ((10::int) < 25 \<and> calculate_security_score 25 = 50) \<and>
   (generate_security_report [] Missing Missing Missing Missing = Inr (empty_run_report []) \<and>
    security_score (empty_run_report []) =
      calculate_security_score (total_issues (summary (empty_run_report []))))"
  using security_score_bands [of 0 "[]" Missing Missing Missing Missing "empty_run_report []"]
    security_score_bands [of 1 "[]" Missing Missing Missing Missing "empty_run_report []"]
    security_score_bands [of 4 "[]" Missing Missing Missing Missing "empty_run_report []"]
    security_score_bands [of 8 "[]" Missing Missing Missing Missing "empty_run_report []"]
    security_score_bands [of 25 "[]" Missing Missing Missing Missing "empty_run_report []"]
    generate_all_missing [of "[]"]
  by simp

text \<open>
  C2. The score never rises with the number of issues: for issue counts \<open>n1 \<le> n2\<close> the
  score of \<open>n1\<close> is at least the score of \<open>n2\<close>. A count of issues is not negative;
  a total below zero, which only a negative \<open>failed\<close> number in the Checkov file can
  produce, is not a count and falls in the band of 95.
\<close>

theorem security_score_monotone:
  "0 \<le> n1 \<Longrightarrow> n1 \<le> n2 \<Longrightarrow> calculate_security_score n2 \<le> calculate_security_score n1"
  by (simp add: calculate_security_score_def)

theorem security_score_monotone_witness:
  "(0::int) \<le> 2 \<and> (2::int) \<le> 3 \<and> calculate_security_score 3 \<le> calculate_security_score 2"
  using security_score_monotone [of 2 3] by simp

text \<open>
  C3. The grade follows the score: at least 95 is A+, at least 90 is A, at least 80 is B,
  at least 70 is C, at least 60 is D and anything lower is F. The grade of every report is
  this function of its score, so a report with no issue at all has score 100 and grade A+.
\<close>

theorem security_grade_bands:
  "(95 \<le> sc \<longrightarrow> get_security_grade sc = ascii ''A+'') \<and>
   (90 \<le> sc \<and> sc < 95 \<longrightarrow> get_security_grade sc = ascii ''A'') \<and>
   (80 \<le> sc \<and> sc < 90 \<longrightarrow> get_security_grade sc = ascii ''B'') \<and>
   (70 \<le> sc \<and> sc < 80 \<longrightarrow> get_security_grade sc = ascii ''C'') \<and>
   (60 \<le> sc \<and> sc < 70 \<longrightarrow> get_security_grade sc = ascii ''D'') \<and>
   (sc < 60 \<longrightarrow> get_security_grade sc = ascii ''F'') \<and>
   (generate_security_report now c t g s = Inr rep \<longrightarrow>
      security_grade rep = get_security_grade (security_score rep)) \<and>
   (generate_security_report now c t g s = Inr rep \<and> total_issues (summary rep) = 0 \<longrightarrow>
      security_score rep = 100 \<and> security_grade rep = ascii ''A+'')"
proof -
  have bands:
    "(95 \<le> sc \<longrightarrow> get_security_grade sc = ascii ''A+'') \<and>
     (90 \<le> sc \<and> sc < 95 \<longrightarrow> get_security_grade sc = ascii ''A'') \<and>
     (80 \<le> sc \<and> sc < 90 \<longrightarrow> get_security_grade sc = ascii ''B'') \<and>
     (70 \<le> sc \<and> sc < 80 \<longrightarrow> get_security_grade sc = ascii ''C'') \<and>
     (60 \<le> sc \<and> sc < 70 \<longrightarrow> get_security_grade sc = ascii ''D'') \<and>
     (sc < 60 \<longrightarrow> get_security_grade sc = ascii ''F'')"
    by (simp add: get_security_grade_def)
  have run: "security_grade rep = get_security_grade (security_score rep)"
    and zero: "total_issues (summary rep) = 0 \<longrightarrow>
                 security_score rep = 100 \<and> security_grade rep = ascii ''A+''"
    if "generate_security_report now c t g s = Inr rep"
    using generate_security_report_score [OF that]
    by (simp_all add: calculate_security_score_def get_security_grade_def)
  from bands run zero show ?thesis by blast
qed

theorem security_grade_bands_witness:
  "((95::int) \<le> 97 \<and> get_security_grade 97 = ascii ''A+'') \<and>
   ((90::int) \<le> 92 \<and> (92::int) < 95 \<and> get_security_grade 92 = ascii ''A'') \<and>
   ((80::int) \<le> 85 \<and> (85::int) < 90 \<and> get_security_grade 85 = ascii ''B'') \<and>
   ((70::int) \<le> 70 \<and> (70::int) < 80 \<and> get_security_grade 70 = ascii ''C'') \<and>
   ((60::int) \<le> 65 \<and> (65::int) < 70 \<and> get_security_grade 65 = ascii ''D'') \<and>
   ((50::int) < 60 \<and> get_security_grade 50 = ascii ''F'') \<and>
   (generate_security_report [] Missing Missing Missing Missing = Inr (empty_run_report []) \<and>
    total_issues (summary (empty_run_report [])) = 0 \<and>
    security_score (empty_run_report []) = 100 \<and>
    security_grade (empty_run_report []) = ascii ''A+'')"
  using security_grade_bands [of 97 "[]" Missing Missing Missing Missing "empty_run_report []"]
    security_grade_bands [of 92 "[]" Missing Missing Missing Missing "empty_run_report []"]
    security_grade_bands [of 85 "[]" Missing Missing Missing Missing "empty_run_report []"]
    security_grade_bands [of 70 "[]" Missing Missing Missing Missing "empty_run_report []"]
    security_grade_bands [of 65 "[]" Missing Missing Missing Missing "empty_run_report []"]
    security_grade_bands [of 50 "[]" Missing Missing Missing Missing "empty_run_report []"]
    generate_all_missing [of "[]"]
  by (simp add: empty_run_report_def)

subsection \<open>The end-to-end scenario\<close>

text \<open>
  C4, as amended. With Checkov reporting \<open>{"failed": 2, "passed": 48, "skipped": 0}\<close>, the
  Trivy file absent, gosec reporting \<open>{"Issues": []}\<close> and the Semgrep file absent, the run
  returns a report with \<open>total_issues\<close> 2, score 95, grade A+ and one recommendation: the
  medium-priority advisory, which begins with the code point U+1F4CB and a space.
\<close>

theorem scenario_report_values:
  "\<exists>rep. generate_security_report now scenario_checkov Missing scenario_gosec Missing = Inr rep \<and>
     total_issues (summary rep) = 2 \<and>
     security_score rep = 95 \<and>
     security_grade rep = ascii ''A+'' \<and>
     recommendations rep =
       [[0x1F4CB] @ ascii '' Medium priority issues found - address within 1 week'']"
  by (simp add: generate_scenario scenario_report_def medium_advice_def)

text \<open>
  C4 as it was stated has the grade A and the advisory without its leading symbol. Neither
  is what the run returns: a score of 95 is in the band of A+, and the advisory text is
  fixed in the source with the symbol.
\<close>

theorem scenario_report_counterexample:
  "map_sum id security_grade
     (generate_security_report [] scenario_checkov Missing scenario_gosec Missing)
     \<noteq> Inr (ascii ''A'') \<and>
   map_sum id recommendations
     (generate_security_report [] scenario_checkov Missing scenario_gosec Missing)
     \<noteq> Inr [ascii ''Medium priority issues found - address within 1 week'']"
  by (simp add: generate_scenario scenario_report_def medium_advice_def ascii_def)

subsection \<open>Result files that are absent or do not parse\<close>




subsection \<open>Recommendations\<close>

text \<open>
  C6, as amended. The recommendations of a report are one fixed advisory for each severity
  bucket whose count is greater than zero, in the order critical, high, medium, low, info,
  and nothing for a bucket whose count is zero or less. No tool adds to the critical or
  the info bucket, so their counts are zero in every report, and the high and the low
  count are never negative: the medium bucket, which holds Checkov's \<open>failed\<close> number, is
  the only one whose count can be below zero.
\<close>

theorem recommendations_per_bucket:
  assumes "generate_security_report now c t g s = Inr rep"
  shows "recommendations rep =
           (if critical_issues (summary rep) > 0 then [critical_advice] else [])
           @ (if high_issues (summary rep) > 0 then [high_advice] else [])
           @ (if medium_issues (summary rep) > 0 then [medium_advice] else [])
           @ (if low_issues (summary rep) > 0 then [low_advice] else []) \<and>
         critical_issues (summary rep) = 0 \<and>
         0 \<le> high_issues (summary rep) \<and>
         0 \<le> low_issues (summary rep) \<and>
         info_issues (summary rep) = 0"
proof -
  from assms obtain vc vt vg vs r1 r2 r3 r4 where
    p1: "process_checkov vc (initial_report now) = Inr r1"
    and p2: "process_trivy vt r1 = Inr r2" and p3: "process_gosec vg r2 = Inr r3"
    and p4: "process_semgrep vs r3 = Inr r4" and sm: "summary rep = summary r4"
    and rc: "recommendations rep = recommendations (generate_recommendations r4)"
    by (rule generate_security_report_Inr)
  have none: "recommendations r4 = []"
    by (simp add: process_semgrep_keeps(1) [OF p4] process_gosec_keeps(1) [OF p3]
        process_trivy_keeps(1) [OF p2] process_checkov_keeps(1) [OF p1] initial_report_simps)
  have critical: "critical_issues (summary r4) = 0"
    by (simp add: process_semgrep_keeps(2) [OF p4] process_gosec_keeps(2) [OF p3]
        process_trivy_keeps(2) [OF p2] process_checkov_keeps(2) [OF p1] initial_report_simps)
  have info: "info_issues (summary r4) = 0"
    by (simp add: process_semgrep_keeps(6) [OF p4] process_gosec_keeps(5) [OF p3]
        process_trivy_keeps(6) [OF p2] process_checkov_keeps(5) [OF p1] initial_report_simps)
  have "high_issues (summary r1) = 0"
    by (simp add: process_checkov_keeps(3) [OF p1] initial_report_simps)
  with process_trivy_keeps(3) [OF p2] have "0 \<le> high_issues (summary r2)"
    by simp
  then have high: "0 \<le> high_issues (summary r4)"
    by (simp add: process_semgrep_keeps(3) [OF p4] process_gosec_keeps(3) [OF p3])
  have "low_issues (summary r3) = 0"
    by (simp add: process_gosec_keeps(4) [OF p3] process_trivy_keeps(5) [OF p2]
        process_checkov_keeps(4) [OF p1] initial_report_simps)
  with process_semgrep_keeps(5) [OF p4] have low: "0 \<le> low_issues (summary r4)"
    by simp
  from none critical info high low show ?thesis
    by (simp add: rc sm recommendations_generate_recommendations)
qed

text \<open>
  The run in which every tool reports: the high, the medium and the low bucket are filled
  and their three advisories come in that order; the critical bucket is empty and gives
  none.
\<close>

theorem recommendations_per_bucket_witness:
  "generate_security_report [] mixed_checkov mixed_trivy mixed_gosec mixed_semgrep =
     Inr (mixed_report []) \<and>
   critical_issues (summary (mixed_report [])) = 0 \<and>
   high_issues (summary (mixed_report [])) = 2 \<and>
   medium_issues (summary (mixed_report [])) = 4 \<and>
   low_issues (summary (mixed_report [])) = 2 \<and>
   recommendations (mixed_report []) = [high_advice, medium_advice, low_advice]"
  using recommendations_per_bucket [of "[]" mixed_checkov mixed_trivy mixed_gosec mixed_semgrep
      "mixed_report []"] generate_mixed [of "[]"]
  by (simp add: mixed_report_def)

text \<open>
  C6 as it was stated gives an advisory to every bucket whose count is not zero. With
  \<open>{"failed": -1}\<close> in the Checkov file and no other file, the run returns a report whose
  medium count is -1, which is not zero, and whose list of recommendations is empty.
\<close>

theorem negative_count_counterexample:
  "map_sum id (medium_issues \<circ> summary)
     (generate_security_report [] negative_checkov Missing Missing Missing) = Inr (- 1) \<and>
   (- 1 :: int) \<noteq> 0 \<and>
   map_sum id recommendations
     (generate_security_report [] negative_checkov Missing Missing Missing) = Inr []"
  by (simp add: generate_security_report_def ebind_def Let_def process_checkov_def
        process_trivy_def process_gosec_def process_semgrep_def set_tool_def dict_set_def
        initial_report_def generate_recommendations_def append_if_def negative_checkov_def
        ascii_def)

subsection \<open>Payloads that are not objects\<close>

text \<open>
  C10. A result file that parses to a truthy value that is not an object, such as a
  non-empty array or a non-empty string, makes the block of its tool raise AttributeError
  at \<open>get\<close>, whichever tool it is. The run then returns no report: the tool is not marked
  as failed, the exception ends the run. When it is the Checkov file and the three other
  files can be read, AttributeError is the exception the run ends with.
\<close>

theorem non_dict_payload_raises:
  assumes "truthy v" and "\<not> is_dict v"
  shows "process_checkov v r = Inl AttributeError \<and>
         process_trivy v r = Inl AttributeError \<and>
         process_gosec v r = Inl AttributeError \<and>
         process_semgrep v r = Inl AttributeError \<and>
         isl (generate_security_report now (Parsed v) t g s) \<and>
         isl (generate_security_report now c (Parsed v) g s) \<and>
         isl (generate_security_report now c t (Parsed v) s) \<and>
         isl (generate_security_report now c t g (Parsed v)) \<and>
         (t \<noteq> Unreadable \<and> g \<noteq> Unreadable \<and> s \<noteq> Unreadable \<longrightarrow>
            generate_security_report now (Parsed v) t g s = Inl AttributeError)"
proof -
  note raises = process_not_dict [OF assms]
  have no_report: "isl x" if "\<And>rep. x \<noteq> Inr rep" for x :: "error + final_report"
    using that by (cases x) auto
  have r1: "isl (generate_security_report now (Parsed v) t g s)"
  proof (rule no_report, rule notI)
    fix rep assume "generate_security_report now (Parsed v) t g s = Inr rep"
    then obtain vc r1 where "load_json_file (Parsed v) = Inr vc"
      "process_checkov vc (initial_report now) = Inr r1"
      by (rule generate_security_report_Inr)
    with raises(1) show False by simp
  qed
  have r2: "isl (generate_security_report now c (Parsed v) g s)"
  proof (rule no_report, rule notI)
    fix rep assume "generate_security_report now c (Parsed v) g s = Inr rep"
    then obtain vt r1 r2 where "load_json_file (Parsed v) = Inr vt"
      "process_trivy vt r1 = Inr r2"
      by (rule generate_security_report_Inr)
    with raises(2) show False by simp
  qed
  have r3: "isl (generate_security_report now c t (Parsed v) s)"
  proof (rule no_report, rule notI)
    fix rep assume "generate_security_report now c t (Parsed v) s = Inr rep"
    then obtain vg r2 r3 where "load_json_file (Parsed v) = Inr vg"
      "process_gosec vg r2 = Inr r3"
      by (rule generate_security_report_Inr)
    with raises(3) show False by simp
  qed
  have r4: "isl (generate_security_report now c t g (Parsed v))"
  proof (rule no_report, rule notI)
    fix rep assume "generate_security_report now c t g (Parsed v) = Inr rep"
    then obtain vs r3 r4 where "load_json_file (Parsed v) = Inr vs"
      "process_semgrep vs r3 = Inr r4"
      by (rule generate_security_report_Inr)
    with raises(4) show False by simp
  qed
  have first: "generate_security_report now (Parsed v) t g s = Inl AttributeError"
    if "t \<noteq> Unreadable" "g \<noteq> Unreadable" "s \<noteq> Unreadable"
  proof -
    from that obtain vt vg vs where "load_json_file t = Inr vt" "load_json_file g = Inr vg"
      "load_json_file s = Inr vs"
      by (cases t; cases g; cases s) simp_all
    then show ?thesis
      by (simp add: generate_security_report_def ebind_Inr ebind_Inl raises(1))
  qed
  from raises r1 r2 r3 r4 first show ?thesis
    by blast
qed

theorem non_dict_payload_raises_witness:
  "truthy (JArr [JInt 1]) \<and> \<not> is_dict (JArr [JInt 1]) \<and>
   process_trivy (JArr [JInt 1]) (initial_report []) = Inl AttributeError \<and>
   (Missing \<noteq> Unreadable \<and> scenario_gosec \<noteq> Unreadable \<and>
    generate_security_report [] (Parsed (JArr [JInt 1])) Missing scenario_gosec Missing =
      Inl AttributeError)"
  using non_dict_payload_raises [of "JArr [JInt 1]" "initial_report []" "[]" Missing scenario_gosec
      Missing Missing]
  by (simp add: scenario_gosec_def)

section \<open>Properties of the badges\<close>

subsection \<open>Auxiliary facts\<close>

lemma security_badge_color:
  "badge_color (create_security_badge score grade issues_count) =
     (if score \<ge> 95 then ascii ''brightgreen''
      else if score \<ge> 90 then ascii ''green''
      else if score \<ge> 80 then ascii ''yellow''
      else if score \<ge> 70 then ascii ''orange''
      else ascii ''red'')"
  by (simp add: create_security_badge_def badge_color_def Let_def split_def)

lemma security_badge_message:
  "badge_message (create_security_badge score grade issues_count) =
     str_int score @ ascii ''/100 ('' @ grade @ ascii '')''"
  by (simp add: create_security_badge_def badge_message_def Let_def split_def)

lemma color_names_distinct:
  "ascii ''yellow'' \<noteq> ascii ''green''" "ascii ''orange'' \<noteq> ascii ''yellow''"
  by (simp_all add: ascii_def)

text \<open>The two lines of a generator that hold its label, cut around the label.\<close>

lemma label_line_14:
  \<open>ascii ''    <text x="30" y="14" fill="#010101" fill-opacity=".3">security</text>\<newline>'' =
     ascii ''    <text x="30" y="14" fill="#010101" fill-opacity=".3">'' @ ascii ''security''
       @ ascii ''</text>\<newline>''\<close>
  \<open>ascii ''    <text x="30" y="14" fill="#010101" fill-opacity=".3">issues</text>\<newline>'' =
     ascii ''    <text x="30" y="14" fill="#010101" fill-opacity=".3">'' @ ascii ''issues''
       @ ascii ''</text>\<newline>''\<close>
  \<open>ascii ''    <text x="30" y="14" fill="#010101" fill-opacity=".3">coverage</text>\<newline>'' =
     ascii ''    <text x="30" y="14" fill="#010101" fill-opacity=".3">'' @ ascii ''coverage''
       @ ascii ''</text>\<newline>''\<close>
  by (simp_all add: ascii_def)

lemma label_line_13:
  \<open>ascii ''    <text x="30" y="13" fill="#fff">security</text>\<newline>'' =
     ascii ''    <text x="30" y="13" fill="#fff">'' @ ascii ''security'' @ ascii ''</text>\<newline>''\<close>
  \<open>ascii ''    <text x="30" y="13" fill="#fff">issues</text>\<newline>'' =
     ascii ''    <text x="30" y="13" fill="#fff">'' @ ascii ''issues'' @ ascii ''</text>\<newline>''\<close>
  \<open>ascii ''    <text x="30" y="13" fill="#fff">coverage</text>\<newline>'' =
     ascii ''    <text x="30" y="13" fill="#fff">'' @ ascii ''coverage'' @ ascii ''</text>\<newline>''\<close>
  by (simp_all add: ascii_def)

lemma security_badge_rendered:
  "badge_svg (create_security_badge score grade issues_count) =
     render_badge (ascii ''security'')
       (badge_message (create_security_badge score grade issues_count))
       (badge_color (create_security_badge score grade issues_count))"
  by (simp only: create_security_badge_def render_badge_def badge_svg_def badge_message_def
        badge_color_def Let_def split_def fst_conv snd_conv label_line_14 label_line_13
        concat.simps append_assoc append_Nil2)

lemma issues_badge_rendered:
  "badge_svg (create_issues_badge n) =
     render_badge (ascii ''issues'') (badge_message (create_issues_badge n))
       (badge_color (create_issues_badge n))"
  by (simp only: create_issues_badge_def render_badge_def badge_svg_def badge_message_def
        badge_color_def Let_def split_def fst_conv snd_conv label_line_14 label_line_13
        concat.simps append_assoc append_Nil2)

lemma coverage_badge_rendered:
  "badge_svg (generate_coverage_badge ge fmt1 cov) =
     render_badge (ascii ''coverage'') (badge_message (generate_coverage_badge ge fmt1 cov))
       (badge_color (generate_coverage_badge ge fmt1 cov))"
  by (simp only: generate_coverage_badge_def render_badge_def badge_svg_def badge_message_def
        badge_color_def Let_def split_def fst_conv snd_conv label_line_14 label_line_13
        concat.simps append_assoc append_Nil2)

text \<open>Where the two widths stand in the rendered text.\<close>

lemma segment_lines:
  \<open>ascii ''" height="20">\<newline>'' = ascii ''" height="20">'' @ ascii ''\<newline>''\<close>
  \<open>ascii ''    <path fill="'' = ascii ''    '' @ ascii ''<path fill="''\<close>
  \<open>ascii ''v20H60z"/>\<newline>'' = ascii ''v20H60z"/>'' @ ascii ''\<newline>''\<close>
  by (simp_all add: ascii_def)

lemma render_badge_decomposition:
  \<open>\<exists>mid rest. render_badge l m c =
     (ascii ''<svg xmlns="http://www.w3.org/2000/svg" width="''
        @ str_int (int (length m) * 6 + 20 + 80) @ ascii ''" height="20">'')
     @ mid
     @ (ascii ''<path fill="'' @ c @ ascii ''" d="M60 0h'' @ str_int (int (length m) * 6 + 20)
        @ ascii ''v20H60z"/>'')
     @ rest\<close>
proof -
  let ?mid = \<open>ascii ''\<newline>''
      @ ascii ''  <linearGradient id="b" x2="0" y2="100%">\<newline>''
      @ ascii ''    <stop offset="0" stop-color="#bbb" stop-opacity=".1"/>\<newline>''
      @ ascii ''    <stop offset="1" stop-opacity=".1"/>\<newline>''
      @ ascii ''  </linearGradient>\<newline>''
      @ ascii ''  <mask id="a">\<newline>''
      @ ascii ''    <rect width="100%" height="100%" rx="3" fill="#fff"/>\<newline>''
      @ ascii ''  </mask>\<newline>''
      @ ascii ''  <g mask="url(#a)">\<newline>''
      @ ascii ''    <path fill="#555" d="M0 0h60v20H0z"/>\<newline>''
      @ ascii ''    ''\<close>
  show ?thesis
    apply (rule exI [of _ ?mid])
    apply (rule exI)
    apply (simp only: render_badge_def Let_def concat.simps append_assoc segment_lines append_Nil2)
    done
qed

lemma render_badge_opening:
  \<open>prefix (ascii ''<svg xmlns="http://www.w3.org/2000/svg" width="''
        @ str_int (int (length m) * 6 + 20 + 80) @ ascii ''" height="20">'') (render_badge l m c)\<close>
proof -
  obtain mid rest where eq: \<open>render_badge l m c =
     (ascii ''<svg xmlns="http://www.w3.org/2000/svg" width="''
        @ str_int (int (length m) * 6 + 20 + 80) @ ascii ''" height="20">'')
     @ mid
     @ (ascii ''<path fill="'' @ c @ ascii ''" d="M60 0h'' @ str_int (int (length m) * 6 + 20)
        @ ascii ''v20H60z"/>'')
     @ rest\<close>
    using render_badge_decomposition by blast
  show ?thesis
    by (subst eq) (rule prefixI, rule refl)
qed

lemma render_badge_right_segment:
  \<open>sublist (ascii ''<path fill="'' @ c @ ascii ''" d="M60 0h'' @ str_int (int (length m) * 6 + 20)
        @ ascii ''v20H60z"/>'') (render_badge l m c)\<close>
proof -
  obtain mid rest where eq: \<open>render_badge l m c =
     (ascii ''<svg xmlns="http://www.w3.org/2000/svg" width="''
        @ str_int (int (length m) * 6 + 20 + 80) @ ascii ''" height="20">'')
     @ mid
     @ (ascii ''<path fill="'' @ c @ ascii ''" d="M60 0h'' @ str_int (int (length m) * 6 + 20)
        @ ascii ''v20H60z"/>'')
     @ rest\<close>
    using render_badge_decomposition by blast
  have \<open>sublist (ascii ''<path fill="'' @ c @ ascii ''" d="M60 0h'' @ str_int (int (length m) * 6 + 20)
        @ ascii ''v20H60z"/>'')
       (((ascii ''<svg xmlns="http://www.w3.org/2000/svg" width="''
        @ str_int (int (length m) * 6 + 20 + 80) @ ascii ''" height="20">'') @ mid) @
        (ascii ''<path fill="'' @ c @ ascii ''" d="M60 0h'' @ str_int (int (length m) * 6 + 20)
        @ ascii ''v20H60z"/>'') @ rest)\<close>
    by (rule sublist_appendI)
  then show ?thesis
    by (simp only: eq append_assoc)
qed

lemma issues_message_0: "badge_message (create_issues_badge 0) = ascii ''0 issues''"
  by (simp add: create_issues_badge_def badge_message_def)

lemma issues_message_12: "badge_message (create_issues_badge 12) = ascii ''12 issues''"
  by (simp add: create_issues_badge_def badge_message_def str_int_def str_nat.simps ascii_def)

lemma issues_widths:
  "str_int (int (length (ascii ''0 issues'')) * 6 + 20 + 80) = ascii ''148''"
  "str_int (int (length (ascii ''12 issues'')) * 6 + 20 + 80) = ascii ''154''"
  by (simp_all add: str_int_def str_nat.simps ascii_def)

lemma opening_tags:
  \<open>ascii ''<svg xmlns="http://www.w3.org/2000/svg" width="'' @ ascii ''148'' @ ascii ''" height="20">''
     = ascii ''<svg xmlns="http://www.w3.org/2000/svg" width="148" height="20">''\<close>
  \<open>ascii ''<svg xmlns="http://www.w3.org/2000/svg" width="'' @ ascii ''154'' @ ascii ''" height="20">''
     = ascii ''<svg xmlns="http://www.w3.org/2000/svg" width="154" height="20">''\<close>
  by (simp_all add: ascii_def)

subsection \<open>Colors of the security badge\<close>

text \<open>
  C7, as amended. The color of the security-score badge has cut points of its own: a score
  of at least 95 is brightgreen, at least 90 is green, at least 80 is yellow, at least 70
  is orange, and every score below 70, so every score below 60 too, is red.
\<close>

theorem security_badge_color_bands:
  "(95 \<le> score \<longrightarrow>
      badge_color (create_security_badge score grade issues_count) = ascii ''brightgreen'') \<and>
   (90 \<le> score \<and> score < 95 \<longrightarrow>
      badge_color (create_security_badge score grade issues_count) = ascii ''green'') \<and>
   (80 \<le> score \<and> score < 90 \<longrightarrow>
      badge_color (create_security_badge score grade issues_count) = ascii ''yellow'') \<and>
   (70 \<le> score \<and> score < 80 \<longrightarrow>
      badge_color (create_security_badge score grade issues_count) = ascii ''orange'') \<and>
   (score < 70 \<longrightarrow>
      badge_color (create_security_badge score grade issues_count) = ascii ''red'')"
  by (simp add: security_badge_color)

theorem security_badge_color_bands_witness:
  "((95::int) \<le> 100 \<and>
      badge_color (create_security_badge 100 (ascii ''A+'') 0) = ascii ''brightgreen'') \<and>
   ((90::int) \<le> 92 \<and> (92::int) < 95 \<and>
      badge_color (create_security_badge 92 (ascii ''A'') 0) = ascii ''green'') \<and>
   ((80::int) \<le> 85 \<and> (85::int) < 90 \<and>
      badge_color (create_security_badge 85 (ascii ''B'') 4) = ascii ''yellow'') \<and>
   ((70::int) \<le> 70 \<and> (70::int) < 80 \<and>
      badge_color (create_security_badge 70 (ascii ''C'') 8) = ascii ''orange'') \<and>
   ((50::int) < 70 \<and> badge_color (create_security_badge 50 (ascii ''F'') 11) = ascii ''red'')"
  using security_badge_color_bands [of 100 "ascii ''A+''" 0]
    security_badge_color_bands [of 92 "ascii ''A''" 0]
    security_badge_color_bands [of 85 "ascii ''B''" 4]
    security_badge_color_bands [of 70 "ascii ''C''" 8]
    security_badge_color_bands [of 50 "ascii ''F''" 11]
  by simp

text \<open>
  C7 as it was stated has green from 80 and yellow from 70. The badge of a report with
  score 85 is yellow, and the badge of a report with score 70 is orange.
\<close>

theorem security_badge_color_counterexample:
  "badge_color (create_security_badge 85 (ascii ''B'') 4) \<noteq> ascii ''green'' \<and>
   badge_color (create_security_badge 70 (ascii ''C'') 8) \<noteq> ascii ''yellow''"
  by (simp add: security_badge_color color_names_distinct)

subsection \<open>The rendered text depends on label, message and color only\<close>

text \<open>
  C8. Rendering is a function of the label, the message and the color: the text each of
  the three generators returns is \<open>render_badge\<close> of its label and of the message and the
  color it returns, and \<open>render_badge\<close> has no other argument, neither a clock nor a
  random source. So two calls of a generator that agree on message and color return the
  same text, character for character.
\<close>

theorem badge_text_determined:
  "badge_svg (create_security_badge score grade issues_count) =
     render_badge (ascii ''security'')
       (badge_message (create_security_badge score grade issues_count))
       (badge_color (create_security_badge score grade issues_count)) \<and>
   badge_svg (create_issues_badge n) =
     render_badge (ascii ''issues'') (badge_message (create_issues_badge n))
       (badge_color (create_issues_badge n)) \<and>
   badge_svg (generate_coverage_badge ge fmt1 cov) =
     render_badge (ascii ''coverage'') (badge_message (generate_coverage_badge ge fmt1 cov))
       (badge_color (generate_coverage_badge ge fmt1 cov)) \<and>
   (badge_message (create_security_badge score grade issues_count) =
      badge_message (create_security_badge score' grade' issues_count') \<and>
    badge_color (create_security_badge score grade issues_count) =
      badge_color (create_security_badge score' grade' issues_count') \<longrightarrow>
    badge_svg (create_security_badge score grade issues_count) =
      badge_svg (create_security_badge score' grade' issues_count')) \<and>
   (badge_message (create_issues_badge n) = badge_message (create_issues_badge n') \<and>
    badge_color (create_issues_badge n) = badge_color (create_issues_badge n') \<longrightarrow>
    badge_svg (create_issues_badge n) = badge_svg (create_issues_badge n')) \<and>
   (badge_message (generate_coverage_badge ge fmt1 cov) =
      badge_message (generate_coverage_badge ge fmt1 cov') \<and>
    badge_color (generate_coverage_badge ge fmt1 cov) =
      badge_color (generate_coverage_badge ge fmt1 cov') \<longrightarrow>
    badge_svg (generate_coverage_badge ge fmt1 cov) =
      badge_svg (generate_coverage_badge ge fmt1 cov'))"
proof -
  have security: "badge_svg (create_security_badge score grade issues_count) =
      badge_svg (create_security_badge score' grade' issues_count')"
    if "badge_message (create_security_badge score grade issues_count) =
          badge_message (create_security_badge score' grade' issues_count')"
      and "badge_color (create_security_badge score grade issues_count) =
          badge_color (create_security_badge score' grade' issues_count')"
    using that by (simp only: security_badge_rendered)
  have issues: "badge_svg (create_issues_badge n) = badge_svg (create_issues_badge n')"
    if "badge_message (create_issues_badge n) = badge_message (create_issues_badge n')"
      and "badge_color (create_issues_badge n) = badge_color (create_issues_badge n')"
    using that by (simp only: issues_badge_rendered)
  have coverage: "badge_svg (generate_coverage_badge ge fmt1 cov) =
      badge_svg (generate_coverage_badge ge fmt1 cov')"
    if "badge_message (generate_coverage_badge ge fmt1 cov) =
          badge_message (generate_coverage_badge ge fmt1 cov')"
      and "badge_color (generate_coverage_badge ge fmt1 cov) =
          badge_color (generate_coverage_badge ge fmt1 cov')"
    using that by (simp only: coverage_badge_rendered)
  from security issues coverage security_badge_rendered [of score grade issues_count]
    issues_badge_rendered [of n] coverage_badge_rendered [of ge fmt1 cov]
  show ?thesis
    by blast
qed

text \<open>
  Two calls for the score 95 and the grade A+ that differ in the issue count, two calls for
  three issues, and two calls for a coverage of 87 with whole percentages as the float type.
\<close>

theorem badge_text_determined_witness:
  "(badge_message (create_security_badge 95 (ascii ''A+'') 0) =
      badge_message (create_security_badge 95 (ascii ''A+'') 2) \<and>
    badge_color (create_security_badge 95 (ascii ''A+'') 0) =
      badge_color (create_security_badge 95 (ascii ''A+'') 2) \<and>
    badge_svg (create_security_badge 95 (ascii ''A+'') 0) =
      badge_svg (create_security_badge 95 (ascii ''A+'') 2)) \<and>
   badge_svg (create_issues_badge 3) = badge_svg (create_issues_badge 3) \<and>
   badge_svg (generate_coverage_badge (\<lambda>x y. y \<le> x) (\<lambda>x. str_int x @ ascii ''.0'') (Some 87)) =
     badge_svg (generate_coverage_badge (\<lambda>x y. y \<le> x) (\<lambda>x. str_int x @ ascii ''.0'') (Some 87))"
proof -
  have message: "badge_message (create_security_badge 95 (ascii ''A+'') 0) =
      badge_message (create_security_badge 95 (ascii ''A+'') 2)"
    by (simp only: security_badge_message)
  have color: "badge_color (create_security_badge 95 (ascii ''A+'') 0) =
      badge_color (create_security_badge 95 (ascii ''A+'') 2)"
    by (simp only: security_badge_color)
  from message color
    badge_text_determined [of 95 "ascii ''A+''" 0 3 "\<lambda>x y. y \<le> x"
      "\<lambda>x. str_int x @ ascii ''.0''" "Some 87" 95 "ascii ''A+''" 2 3 "Some 87"]
  show ?thesis
    by blast
qed

subsection \<open>Widths\<close>

text \<open>
  C9. For every issue count, the badge opens with the width \<open>len(message) * 6 + 20 + 80\<close>
  and its right segment, the path filled with the color, is \<open>len(message) * 6 + 20\<close> wide.
  The message \<open>0 issues\<close> has 8 characters and gives the width 148; the message
  \<open>12 issues\<close> has 9 characters and gives 154. The security badge and the coverage badge
  have the same two widths for their messages.
\<close>

theorem issues_badge_width:
  \<open>prefix (ascii ''<svg xmlns="http://www.w3.org/2000/svg" width="''
             @ str_int (int (length (badge_message (create_issues_badge n))) * 6 + 20 + 80)
             @ ascii ''" height="20">'')
          (badge_svg (create_issues_badge n)) \<and>
    sublist (ascii ''<path fill="'' @ badge_color (create_issues_badge n) @ ascii ''" d="M60 0h''
             @ str_int (int (length (badge_message (create_issues_badge n))) * 6 + 20)
             @ ascii ''v20H60z"/>'')
          (badge_svg (create_issues_badge n)) \<and>
    badge_message (create_issues_badge 0) = ascii ''0 issues'' \<and>
    length (ascii ''0 issues'') = 8 \<and>
    prefix (ascii ''<svg xmlns="http://www.w3.org/2000/svg" width="148" height="20">'')
          (badge_svg (create_issues_badge 0)) \<and>
    badge_message (create_issues_badge 12) = ascii ''12 issues'' \<and>
    length (ascii ''12 issues'') = 9 \<and>
    prefix (ascii ''<svg xmlns="http://www.w3.org/2000/svg" width="154" height="20">'')
          (badge_svg (create_issues_badge 12)) \<and>
    prefix (ascii ''<svg xmlns="http://www.w3.org/2000/svg" width="''
             @ str_int (int (length (badge_message (create_security_badge score grade issues_count)))
                          * 6 + 20 + 80)
             @ ascii ''" height="20">'')
          (badge_svg (create_security_badge score grade issues_count)) \<and>
    sublist (ascii ''<path fill="'' @ badge_color (create_security_badge score grade issues_count)
             @ ascii ''" d="M60 0h''
             @ str_int (int (length (badge_message (create_security_badge score grade issues_count)))
                          * 6 + 20)
             @ ascii ''v20H60z"/>'')
          (badge_svg (create_security_badge score grade issues_count)) \<and>
    prefix (ascii ''<svg xmlns="http://www.w3.org/2000/svg" width="''
             @ str_int (int (length (badge_message (generate_coverage_badge ge fmt1 cov)))
                          * 6 + 20 + 80)
             @ ascii ''" height="20">'')
          (badge_svg (generate_coverage_badge ge fmt1 cov)) \<and>
    sublist (ascii ''<path fill="'' @ badge_color (generate_coverage_badge ge fmt1 cov)
             @ ascii ''" d="M60 0h''
             @ str_int (int (length (badge_message (generate_coverage_badge ge fmt1 cov)))
                          * 6 + 20)
             @ ascii ''v20H60z"/>'')
          (badge_svg (generate_coverage_badge ge fmt1 cov))\<close>
proof -
  have len: "length (ascii ''0 issues'') = 8" "length (ascii ''12 issues'') = 9"
    by (simp_all add: ascii_def)
  have p0: \<open>prefix (ascii ''<svg xmlns="http://www.w3.org/2000/svg" width="148" height="20">'')
          (badge_svg (create_issues_badge 0))\<close>
    using render_badge_opening [of "ascii ''0 issues''" "ascii ''issues''"
        "badge_color (create_issues_badge 0)"]
    by (simp only: issues_badge_rendered issues_message_0 issues_widths opening_tags)
  have p12: \<open>prefix (ascii ''<svg xmlns="http://www.w3.org/2000/svg" width="154" height="20">'')
          (badge_svg (create_issues_badge 12))\<close>
    using render_badge_opening [of "ascii ''12 issues''" "ascii ''issues''"
        "badge_color (create_issues_badge 12)"]
    by (simp only: issues_badge_rendered issues_message_12 issues_widths opening_tags)
  show ?thesis
    using p0 p12 len issues_message_0 issues_message_12
      render_badge_opening [of "badge_message (create_issues_badge n)" "ascii ''issues''"
        "badge_color (create_issues_badge n)"]
      render_badge_right_segment [of "badge_color (create_issues_badge n)"
        "badge_message (create_issues_badge n)" "ascii ''issues''"]
      render_badge_opening [of "badge_message (create_security_badge score grade issues_count)"
        "ascii ''security''" "badge_color (create_security_badge score grade issues_count)"]
      render_badge_right_segment [of "badge_color (create_security_badge score grade issues_count)"
        "badge_message (create_security_badge score grade issues_count)" "ascii ''security''"]
      render_badge_opening [of "badge_message (generate_coverage_badge ge fmt1 cov)"
        "ascii ''coverage''" "badge_color (generate_coverage_badge ge fmt1 cov)"]
      render_badge_right_segment [of "badge_color (generate_coverage_badge ge fmt1 cov)"
        "badge_message (generate_coverage_badge ge fmt1 cov)" "ascii ''coverage''"]
    by (simp only: issues_badge_rendered security_badge_rendered coverage_badge_rendered simp_thms)
qed

end
